theory Spec2Isabelle
  imports Complex_Main "HOL-Library.AList"
begin

section \<open>JavaScript values\<close>

text \<open>
  The values that flow through \<^verbatim>\<open>models.ts\<close>: the primitives, arrays and plain
  objects. A plain object is an association list in insertion order, so that two
  serialisations are equal exactly when they carry the same keys, in the same order, with
  the same values. \<open>JUndefined\<close> is the value \<^verbatim>\<open>undefined\<close>; numbers are never
  computed with by this program and are carried as reals.
\<close>

datatype json =
    JUndefined
  | JNull
  | JBool bool
  | JNum real
  | JStr string
  | JArr "json list"
  | JObj "(string \<times> json) list"

type_synonym jsobject = "(string \<times> json) list"

text \<open>\<^verbatim>\<open>obj.k\<close>: reading a property that the object does not carry gives \<^verbatim>\<open>undefined\<close>.\<close>

definition get_prop :: "jsobject \<Rightarrow> string \<Rightarrow> json" where
  "get_prop obj k = (case map_of obj k of None \<Rightarrow> JUndefined | Some v \<Rightarrow> v)"

text \<open>\<^verbatim>\<open>obj.k = v\<close>: an existing key keeps its place, a new key goes last.\<close>

definition set_prop :: "jsobject \<Rightarrow> string \<Rightarrow> json \<Rightarrow> jsobject" where
  "set_prop obj k v = AList.update k v obj"

text \<open>\<^verbatim>\<open>typeof x === "string"\<close> and \<^verbatim>\<open>Array.isArray(x)\<close>.\<close>

fun isString :: "json \<Rightarrow> bool" where
  "isString (JStr s) = True"
| "isString _ = False"

fun isArray :: "json \<Rightarrow> bool" where
  "isArray (JArr xs) = True"
| "isArray _ = False"

section \<open>Filter and target discrimination\<close>

datatype FilterType = Advanced | Basic | Unknown

definition getFilterType :: "jsobject \<Rightarrow> FilterType" where
  "getFilterType fltr =
     (if isString (get_prop fltr ''operator'') \<and> isArray (get_prop fltr ''values'')
      then Basic
      else if isString (get_prop fltr ''logicalOperator'')
              \<and> isArray (get_prop fltr ''conditions'')
      then Advanced
      else Unknown)"

definition isMeasure :: "jsobject \<Rightarrow> bool" where
  "isMeasure arg \<longleftrightarrow> get_prop arg ''table'' \<noteq> JUndefined \<and> get_prop arg ''measure'' \<noteq> JUndefined"

definition isColumn :: "jsobject \<Rightarrow> bool" where
  "isColumn arg \<longleftrightarrow> get_prop arg ''table'' \<noteq> JUndefined \<and> get_prop arg ''column'' \<noteq> JUndefined"

definition isHierarchy :: "jsobject \<Rightarrow> bool" where
  "isHierarchy arg \<longleftrightarrow>
     get_prop arg ''table'' \<noteq> JUndefined \<and> get_prop arg ''hierarchy'' \<noteq> JUndefined
     \<and> get_prop arg ''hierarchyLevel'' \<noteq> JUndefined"

section \<open>Filter classes\<close>

text \<open>
  The rest parameter of both constructors arrives as the list of trailing arguments.
  Each \<^verbatim>\<open>throw new Error(...)\<close> of the constructors is one constructor of \<open>error\<close>;
  the value interpolated into the message is its argument.
\<close>

datatype error =
    ValuesEmpty
  | InvalidLogicalOperator json
  | ConditionsEmpty
  | TooManyConditions nat

record Filter =
  schemaUrl :: string
  target :: json

text \<open>The field \<^verbatim>\<open>values\<close> of a basic filter is \<open>valuesF\<close> here.\<close>

record BasicFilter = Filter +
  operator :: json
  valuesF :: "json list"

record AdvancedFilter = Filter +
  logicalOperator :: json
  conditions :: "json list"

definition BasicFilter_schemaUrl :: string where
  "BasicFilter_schemaUrl = ''http://powerbi.com/product/schema#basic''"

definition AdvancedFilter_schemaUrl :: string where
  "AdvancedFilter_schemaUrl = ''http://powerbi.com/product/schema#advanced''"

text \<open>
  The block that closes both constructors: when the first trailing argument is an array
  it is the payload, otherwise the trailing arguments are.
\<close>

fun resolve_payload :: "json list \<Rightarrow> json list" where
  "resolve_payload (JArr xs # rest) = xs"
| "resolve_payload args = args"

definition BasicFilter_new :: "json \<Rightarrow> json \<Rightarrow> json list \<Rightarrow> error + BasicFilter" where
  "BasicFilter_new tgt opr vals =
     (if length vals = 0 then Inl ValuesEmpty
      else Inr \<lparr>schemaUrl = BasicFilter_schemaUrl, target = tgt,
                operator = opr, valuesF = resolve_payload vals\<rparr>)"

definition AdvancedFilter_new :: "json \<Rightarrow> json \<Rightarrow> json list \<Rightarrow> error + AdvancedFilter" where
  "AdvancedFilter_new tgt lop conds =
     (if \<not> isString lop \<or> lop = JStr [] then Inl (InvalidLogicalOperator lop)
      else if length conds = 0 then Inl ConditionsEmpty
      else if length conds > 2 then Inl (TooManyConditions (length conds))
      else Inr \<lparr>schemaUrl = AdvancedFilter_schemaUrl, target = tgt,
                logicalOperator = lop, conditions = resolve_payload conds\<rparr>)"

definition Filter_toJSON :: "'a Filter_scheme \<Rightarrow> jsobject" where
  "Filter_toJSON f = [(''$schema'', JStr (schemaUrl f)), (''target'', target f)]"

definition BasicFilter_toJSON :: "BasicFilter \<Rightarrow> jsobject" where
  "BasicFilter_toJSON f =
     (let fltr = Filter_toJSON f;
          fltr = set_prop fltr ''operator'' (operator f);
          fltr = set_prop fltr ''values'' (JArr (valuesF f))
      in fltr)"

definition AdvancedFilter_toJSON :: "AdvancedFilter \<Rightarrow> jsobject" where
  "AdvancedFilter_toJSON f =
     (let fltr = Filter_toJSON f;
          fltr = set_prop fltr ''logicalOperator'' (logicalOperator f);
          fltr = set_prop fltr ''conditions'' (JArr (conditions f))
      in fltr)"

section \<open>Error normalisation\<close>

text \<open>
  A raw failure record of the schema evaluator. Every field can be absent (the
  normaliser deletes two of them), so each is optional; \<open>None\<close> is an absent field.
  The records live in a store and are passed by reference, since the normaliser
  updates the record it is given.
\<close>

record IValidationError =
  path :: "string option"
  keyword :: "string option"
  message :: "string option"

type_synonym ref = nat
type_synonym heap = "ref \<Rightarrow> IValidationError"

text \<open>\<^verbatim>\<open>!error.message\<close>: an absent message and the empty string are both falsy.\<close>

fun falsy :: "string option \<Rightarrow> bool" where
  "falsy None = True"
| "falsy (Some s) = (s = [])"

text \<open>A field interpolated into a template string; an absent one prints as its name.\<close>

fun interpolate :: "string option \<Rightarrow> string" where
  "interpolate None = ''undefined''"
| "interpolate (Some s) = s"

definition normalizeError :: "ref \<Rightarrow> heap \<Rightarrow> ref \<times> heap" where
  "normalizeError error h =
     (let h1 = (if falsy (message (h error))
                then h(error := (h error)\<lparr>message :=
                       Some (interpolate (path (h error)) @ '' is invalid. Not meeting ''
                             @ interpolate (keyword (h error)) @ '' constraint'')\<rparr>)
                else h);
          h2 = h1(error := (h1 error)\<lparr>path := None\<rparr>);
          h3 = h2(error := (h2 error)\<lparr>keyword := None\<rparr>)
      in (error, h3))"

section \<open>Validators\<close>

text \<open>
  The schema evaluator \<^verbatim>\<open>jsen\<close> is a library outside this repository, and the
  schema documents under \<^verbatim>\<open>./schemas\<close> are data: both are parameters here. An
  evaluator takes a schema, the options (absent, or the named auxiliary schemas) and the
  value, and gives its verdict together with the failure records it allocated
  (\<^verbatim>\<open>validate.errors\<close>).
\<close>

record jsen_result =
  isValid :: bool
  errors :: "ref list"

type_synonym 's options = "(string \<times> 's) list option"
type_synonym 's jsen = "'s \<Rightarrow> 's options \<Rightarrow> json \<Rightarrow> heap \<Rightarrow> jsen_result \<times> heap"

record 's schemas =
  advancedFilterSchema :: 's
  filterSchema :: 's
  filtersContainerSchema :: 's
  loadSchema :: 's
  pageSchema :: 's
  pageTargetSchema :: 's
  settingsSchema :: 's
  targetSchema :: 's
  basicFilterSchema :: 's
  visualTargetSchema :: 's

text \<open>\<^verbatim>\<open>xs.map(f)\<close> for a callback that updates the store: left to right.\<close>

fun array_map :: "('a \<Rightarrow> heap \<Rightarrow> 'b \<times> heap) \<Rightarrow> 'a list \<Rightarrow> heap \<Rightarrow> 'b list \<times> heap" where
  "array_map f [] h = ([], h)"
| "array_map f (x # xs) h =
     (let (y, h1) = f x h; (ys, h2) = array_map f xs h1 in (y # ys, h2))"

text \<open>The result \<open>None\<close> is \<^verbatim>\<open>undefined\<close>.\<close>

definition validate :: "'s jsen \<Rightarrow> 's \<Rightarrow> 's options \<Rightarrow> json \<Rightarrow> heap \<Rightarrow> ref list option \<times> heap" where
  "validate jsen schema options x h =
     (let (r, h1) = jsen schema options x h
      in if isValid r then (None, h1)
         else (let (es, h2) = array_map normalizeError (errors r) h1 in (Some es, h2)))"










definition filterOptions :: "'s schemas \<Rightarrow> 's options" where
  "filterOptions S = Some [(''basicFilter'', basicFilterSchema S),
                           (''advancedFilter'', advancedFilterSchema S)]"

definition validateFilter :: "'s jsen \<Rightarrow> 's schemas \<Rightarrow> json \<Rightarrow> heap \<Rightarrow> ref list option \<times> heap" where
  "validateFilter jsen S = validate jsen (filterSchema S) (filterOptions S)"

section \<open>The shape of a serialised filter\<close>

text \<open>
  The declared types of \<^verbatim>\<open>models.ts\<close> as predicates on values: a primitive is a
  string, a number or a boolean (the element type of \<^verbatim>\<open>IBasicFilter.values\<close>); a
  condition is a primitive value with one of the thirteen comparison operators
  (\<^verbatim>\<open>IAdvancedFilterCondition\<close>).
\<close>

fun isPrimitive :: "json \<Rightarrow> bool" where
  "isPrimitive (JStr s) = True"
| "isPrimitive (JNum n) = True"
| "isPrimitive (JBool b) = True"
| "isPrimitive _ = False"

definition AdvancedFilterConditionOperators :: "json list" where
  "AdvancedFilterConditionOperators =
     [JStr ''None'', JStr ''LessThan'', JStr ''LessThanOrEqual'', JStr ''GreaterThan'',
      JStr ''GreaterThanOrEqual'', JStr ''Contains'', JStr ''DoesNotContain'',
      JStr ''StartsWith'', JStr ''DoesNotStartWith'', JStr ''Is'', JStr ''IsNot'',
      JStr ''IsBlank'', JStr ''IsNotBlank'']"

fun isCondition :: "json \<Rightarrow> bool" where
  "isCondition (JObj obj) =
     (isPrimitive (get_prop obj ''value'')
      \<and> get_prop obj ''operator'' \<in> set AdvancedFilterConditionOperators)"
| "isCondition _ = False"

text \<open>
  Modelled from the spec: which targets are well formed is not decided by the sources. A
  filter target has one of three shapes, told apart by the fields present, and the shapes
  exclude each other in well-formed data: a column target carries \<^verbatim>\<open>table\<close> and
  \<^verbatim>\<open>column\<close>, a hierarchy target \<^verbatim>\<open>table\<close>, \<^verbatim>\<open>hierarchy\<close> and
  \<^verbatim>\<open>hierarchyLevel\<close>, a measure target \<^verbatim>\<open>table\<close> and \<^verbatim>\<open>measure\<close>, all strings,
  and none carries a field of another shape.
\<close>

definition isColumnTarget :: "jsobject \<Rightarrow> bool" where
  "isColumnTarget obj \<longleftrightarrow>
     isString (get_prop obj ''table'') \<and> isString (get_prop obj ''column'')
     \<and> get_prop obj ''hierarchy'' = JUndefined \<and> get_prop obj ''hierarchyLevel'' = JUndefined
     \<and> get_prop obj ''measure'' = JUndefined"

definition isHierarchyTarget :: "jsobject \<Rightarrow> bool" where
  "isHierarchyTarget obj \<longleftrightarrow>
     isString (get_prop obj ''table'') \<and> isString (get_prop obj ''hierarchy'')
     \<and> isString (get_prop obj ''hierarchyLevel'')
     \<and> get_prop obj ''column'' = JUndefined \<and> get_prop obj ''measure'' = JUndefined"

definition isMeasureTarget :: "jsobject \<Rightarrow> bool" where
  "isMeasureTarget obj \<longleftrightarrow>
     isString (get_prop obj ''table'') \<and> isString (get_prop obj ''measure'')
     \<and> get_prop obj ''column'' = JUndefined \<and> get_prop obj ''hierarchy'' = JUndefined
     \<and> get_prop obj ''hierarchyLevel'' = JUndefined"

fun isFilterTarget :: "json \<Rightarrow> bool" where
  "isFilterTarget (JObj obj) = (isColumnTarget obj \<or> isHierarchyTarget obj \<or> isMeasureTarget obj)"
| "isFilterTarget _ = False"

text \<open>
  Modelled from the spec: the schema documents \<^verbatim>\<open>schemas/basicFilter.json\<close>,
  \<^verbatim>\<open>schemas/advancedFilter.json\<close> and \<^verbatim>\<open>schemas/filter.json\<close> are not among the
  sources. A schema document is taken as the set of values it accepts. Its property rules
  state required-ness and an expected primitive type: a basic filter carries a schema
  identifier, a filter target, an operator that is a string and a non-empty array of
  primitive scalars; an advanced filter carries a schema identifier, a filter target, a
  logical operator that is a string and one or two conditions. The operators are held to
  their primitive type only: the repository's tests expect a basic filter with the
  operator \<^verbatim>\<open>x\<close> to validate. The filter schema is the composition of the two: a
  value conforms to one of them, and a value that meets both is malformed.
\<close>

type_synonym schema_doc = "json \<Rightarrow> bool"

fun conforms_basicFilter :: schema_doc where
  "conforms_basicFilter (JObj obj) =
     (isString (get_prop obj ''$schema'')
      \<and> isFilterTarget (get_prop obj ''target'')
      \<and> isString (get_prop obj ''operator'')
      \<and> (case get_prop obj ''values'' of
            JArr vs \<Rightarrow> vs \<noteq> [] \<and> list_all isPrimitive vs
          | _ \<Rightarrow> False))"
| "conforms_basicFilter _ = False"

fun conforms_advancedFilter :: schema_doc where
  "conforms_advancedFilter (JObj obj) =
     (isString (get_prop obj ''$schema'')
      \<and> isFilterTarget (get_prop obj ''target'')
      \<and> isString (get_prop obj ''logicalOperator'')
      \<and> (case get_prop obj ''conditions'' of
            JArr cs \<Rightarrow> (length cs = 1 \<or> length cs = 2) \<and> list_all isCondition cs
          | _ \<Rightarrow> False))"
| "conforms_advancedFilter _ = False"

definition conforms_filter :: schema_doc where
  "conforms_filter x \<longleftrightarrow> conforms_basicFilter x \<noteq> conforms_advancedFilter x"

text \<open>
  Modelled from the spec: the evaluator \<^verbatim>\<open>jsen\<close> is not among the sources. On a
  schema document taken as the set of values it accepts, it reports a value valid, with
  no failure record, when the document accepts the value; otherwise it reports the value
  invalid together with failure records. Which records it reports is left open: they are
  the parameter \<open>fails\<close>. References between documents are resolved in the documents
  themselves, so the options are not consulted.
\<close>

definition jsen_spec :: "(json \<Rightarrow> heap \<Rightarrow> ref list \<times> heap) \<Rightarrow> schema_doc jsen" where
  "jsen_spec fails schema options x h =
     (if schema x then (\<lparr>isValid = True, errors = []\<rparr>, h)
      else (let (rs, h1) = fails x h in (\<lparr>isValid = False, errors = rs\<rparr>, h1)))"

section \<open>Sample data\<close>

text \<open>
  A table of schema documents, failure reports, an evaluator that rejects every value
  without reporting a failure, a store, a target and conditions, on which the theorems
  below are instantiated. In the table the three filter documents are those above; the
  seven other documents are not modelled and accept every value.
\<close>

definition schemas_demo :: "schema_doc schemas" where
  "schemas_demo = \<lparr>advancedFilterSchema = conforms_advancedFilter,
     filterSchema = conforms_filter, filtersContainerSchema = (\<lambda>x. True),
     loadSchema = (\<lambda>x. True), pageSchema = (\<lambda>x. True), pageTargetSchema = (\<lambda>x. True),
     settingsSchema = (\<lambda>x. True), targetSchema = (\<lambda>x. True),
     basicFilterSchema = conforms_basicFilter, visualTargetSchema = (\<lambda>x. True)\<rparr>"

definition fails_demo :: "json \<Rightarrow> heap \<Rightarrow> ref list \<times> heap" where
  "fails_demo x h =
     ([0], h(0 := \<lparr>path = Some ''filter'', keyword = Some ''oneOf'', message = None\<rparr>))"


definition heap_demo :: heap where
  "heap_demo = (\<lambda>r. \<lparr>path = None, keyword = None, message = None\<rparr>)"

definition target_demo :: json where
  "target_demo = JObj [(''table'', JStr ''a''), (''column'', JStr ''b'')]"

definition condition_demo :: "string \<Rightarrow> json" where
  "condition_demo v = JObj [(''value'', JStr v), (''operator'', JStr ''LessThan'')]"

section \<open>Auxiliary facts\<close>

lemma get_prop_update:
  "get_prop (set_prop obj k v) k' = (if k' = k then v else get_prop obj k')"
  by (simp add: get_prop_def set_prop_def update_conv')

lemma get_prop_delete:
  "get_prop (AList.delete k obj) k' = (if k' = k then JUndefined else get_prop obj k')"
  by (simp add: get_prop_def delete_conv')

lemma resolve_payload_no_array:
  "args \<noteq> [] \<Longrightarrow> \<not> isArray (hd args) \<Longrightarrow> resolve_payload args = args"
  by (cases args rule: resolve_payload.cases) simp_all

lemma hd_list_all: "xs \<noteq> [] \<Longrightarrow> list_all P xs \<Longrightarrow> P (hd xs)"
  by (cases xs) simp_all

lemma hd_not_array:
  "xs \<noteq> [] \<Longrightarrow> list_all (\<lambda>v. \<not> isArray v) xs \<Longrightarrow> \<not> isArray (hd xs)"
  by (cases xs) simp_all

lemma isPrimitive_not_array: "isPrimitive v \<Longrightarrow> \<not> isArray v"
  by (cases v) simp_all

lemma isCondition_not_array: "isCondition v \<Longrightarrow> \<not> isArray v"
  by (cases v) simp_all

lemma BasicFilter_toJSON_fields:
  "BasicFilter_toJSON f =
     [(''$schema'', JStr (schemaUrl f)), (''target'', target f),
      (''operator'', operator f), (''values'', JArr (valuesF f))]"
  by (simp add: BasicFilter_toJSON_def Filter_toJSON_def set_prop_def)

lemma AdvancedFilter_toJSON_fields:
  "AdvancedFilter_toJSON f =
     [(''$schema'', JStr (schemaUrl f)), (''target'', target f),
      (''logicalOperator'', logicalOperator f), (''conditions'', JArr (conditions f))]"
  by (simp add: AdvancedFilter_toJSON_def Filter_toJSON_def set_prop_def)

text \<open>The normaliser hands back the reference it was given, so mapping it keeps the list.\<close>

lemma normalizeError_ref: "fst (normalizeError r h) = r"
  by (simp add: normalizeError_def Let_def)

lemma array_map_normalizeError: "fst (array_map normalizeError rs h) = rs"
proof (induction rs arbitrary: h)
  case Nil
  show ?case by simp
next
  case (Cons r rs)
  have "fst (array_map normalizeError rs (snd (normalizeError r h))) = rs"
    by (rule Cons.IH)
  then show ?case
    using normalizeError_ref [of r h]
    by (simp add: case_prod_unfold Let_def)
qed

lemma validate_result:
  "fst (validate jsen schema options x h) =
     (if isValid (fst (jsen schema options x h)) then None
      else Some (errors (fst (jsen schema options x h))))"
  by (simp add: validate_def case_prod_unfold Let_def array_map_normalizeError)

lemma BasicFilter_toJSON_conforms:
  assumes "isFilterTarget (target f)" and "isString (operator f)"
    and "valuesF f \<noteq> []" and "list_all isPrimitive (valuesF f)"
  shows "conforms_filter (JObj (BasicFilter_toJSON f))"
  using assms by (simp add: conforms_filter_def BasicFilter_toJSON_fields get_prop_def)

lemma AdvancedFilter_toJSON_conforms:
  assumes "isFilterTarget (target f)" and "isString (logicalOperator f)"
    and "length (conditions f) = 1 \<or> length (conditions f) = 2"
    and "list_all isCondition (conditions f)"
  shows "conforms_filter (JObj (AdvancedFilter_toJSON f))"
  using assms by (simp add: conforms_filter_def AdvancedFilter_toJSON_fields get_prop_def)

lemma validateFilter_jsen_spec:
  assumes "conforms_filter x"
  shows "fst (validateFilter (jsen_spec fails) (S\<lparr>filterSchema := conforms_filter\<rparr>) x h) = None"
  using assms by (simp add: validateFilter_def validate_result jsen_spec_def)

lemma BasicFilter_new_payload:
  assumes "vs \<noteq> []" and "list_all isPrimitive vs" and "args = [JArr vs] \<or> args = vs"
  shows "BasicFilter_new tgt opr args =
           Inr \<lparr>schemaUrl = BasicFilter_schemaUrl, target = tgt, operator = opr, valuesF = vs\<rparr>"
proof -
  have "\<not> isArray (hd vs)"
    using assms(1,2) hd_list_all [of vs isPrimitive] by (simp add: isPrimitive_not_array)
  then have "resolve_payload vs = vs"
    using assms(1) by (simp add: resolve_payload_no_array)
  then show ?thesis
    using assms(1,3) by (auto simp add: BasicFilter_new_def)
qed

lemma AdvancedFilter_new_payload:
  assumes "isString lop" and "lop \<noteq> JStr []"
    and "length cs = 1 \<or> length cs = 2" and "list_all isCondition cs"
    and "args = [JArr cs] \<or> args = cs"
  shows "AdvancedFilter_new tgt lop args =
           Inr \<lparr>schemaUrl = AdvancedFilter_schemaUrl, target = tgt,
                 logicalOperator = lop, conditions = cs\<rparr>"
proof -
  have ne: "cs \<noteq> []" using assms(3) by auto
  have "\<not> isArray (hd cs)"
    using ne assms(4) hd_list_all [of cs isCondition] by (simp add: isCondition_not_array)
  then have r: "resolve_payload cs = cs"
    using ne by (simp add: resolve_payload_no_array)
  show ?thesis
    using r ne assms(1,2,3,5) by (auto simp add: AdvancedFilter_new_def)
qed

section \<open>What a validator returns\<close>




section \<open>Construction guards\<close>

text \<open>
  C2. Constructing a basic filter should fail whenever the resolved values payload is
  empty, in particular for a single empty array. The constructor tests the trailing
  argument list instead, which here has one element, so the call
  \<^verbatim>\<open>new BasicFilter({table: "t", column: "c"}, "In", [])\<close> returns a filter whose
  values are empty.
\<close>

theorem BasicFilter_empty_array_constructed:
  "resolve_payload [JArr []] = []
   \<and> BasicFilter_new (JObj [(''table'', JStr ''t''), (''column'', JStr ''c'')]) (JStr ''In'')
        [JArr []]
     = Inr \<lparr>schemaUrl = BasicFilter_schemaUrl,
             target = JObj [(''table'', JStr ''t''), (''column'', JStr ''c'')],
             operator = JStr ''In'', valuesF = []\<rparr>"
  by (simp add: BasicFilter_new_def)

text \<open>
  C3. Constructing an advanced filter should fail exactly when the logical operator is
  not a non-empty string or the resolved condition payload is empty or longer than two.
  The constructor tests the trailing argument list instead: a single array of three
  conditions is constructed, and an array of one condition followed by two more
  arguments is refused although its resolved payload has one entry.
\<close>

theorem AdvancedFilter_three_conditions_constructed:
  "AdvancedFilter_new target_demo (JStr ''And'')
      [JArr [condition_demo ''a'', condition_demo ''b'', condition_demo ''c'']]
     = Inr \<lparr>schemaUrl = AdvancedFilter_schemaUrl, target = target_demo,
             logicalOperator = JStr ''And'',
             conditions = [condition_demo ''a'', condition_demo ''b'', condition_demo ''c'']\<rparr>
   \<and> resolve_payload [JArr [condition_demo ''a''], condition_demo ''b'', condition_demo ''c'']
     = [condition_demo ''a'']
   \<and> AdvancedFilter_new target_demo (JStr ''And'')
        [JArr [condition_demo ''a''], condition_demo ''b'', condition_demo ''c'']
     = Inl (TooManyConditions 3)"
  by (simp add: AdvancedFilter_new_def)

text \<open>The filter so constructed holds three conditions and passes the logical-operator guard.\<close>

theorem AdvancedFilter_three_conditions_constructed_witness:
  "isString (JStr ''And'') \<and> JStr ''And'' \<noteq> JStr []
   \<and> (\<exists>f. AdvancedFilter_new target_demo (JStr ''And'')
              [JArr [condition_demo ''a'', condition_demo ''b'', condition_demo ''c'']] = Inr f
          \<and> length (conditions f) = 3)"
  using AdvancedFilter_three_conditions_constructed by simp

section \<open>Error normalisation\<close>

text \<open>
  C4, as amended. For a raw failure record with a path and a rule kind, the normaliser
  leaves a record whose only field is the message: the supplied message when one is
  present and not empty, and otherwise the text built from the path and the rule kind.
\<close>

theorem normalizeError_message:
  assumes "h r = \<lparr>path = Some p, keyword = Some k, message = m\<rparr>"
  shows "snd (normalizeError r h) (fst (normalizeError r h)) =
           \<lparr>path = None, keyword = None,
            message = (if m = None \<or> m = Some []
                       then Some (p @ '' is invalid. Not meeting '' @ k @ '' constraint'')
                       else m)\<rparr>"
  using assms by (cases m) (simp_all add: normalizeError_def)

text \<open>A record with a message keeps it; a record without one gets the built text.\<close>

theorem normalizeError_message_witness:
  "snd (normalizeError 3 (heap_demo(3 := \<lparr>path = Some ''id'', keyword = Some ''required'',
                                          message = Some ''id is required''\<rparr>))) 3
     = \<lparr>path = None, keyword = None, message = Some ''id is required''\<rparr>
   \<and> snd (normalizeError 3 (heap_demo(3 := \<lparr>path = Some ''id'', keyword = Some ''required'',
                                          message = None\<rparr>))) 3
     = \<lparr>path = None, keyword = None,
        message = Some ''id is invalid. Not meeting required constraint''\<rparr>"
  using normalizeError_message
          [of "heap_demo(3 := \<lparr>path = Some ''id'', keyword = Some ''required'',
                                message = Some ''id is required''\<rparr>)"
              3 "''id''" "''required''" "Some ''id is required''"]
        normalizeError_message
          [of "heap_demo(3 := \<lparr>path = Some ''id'', keyword = Some ''required'',
                                message = None\<rparr>)"
              3 "''id''" "''required''" None]
  by (simp add: normalizeError_ref)

text \<open>
  The statement without the amendment fails on a record whose supplied message is the
  empty string: the result does not carry that message.
\<close>

theorem normalizeError_empty_override_counterexample:
  "message (snd (normalizeError 0
      (heap_demo(0 := \<lparr>path = Some ''p'', keyword = Some ''k'', message = Some []\<rparr>))) 0)
     \<noteq> Some []"
  by (simp add: normalizeError_def)

section \<open>Serialisation\<close>

text \<open>
  C5. A basic filter built from a valid target, an operator and a non-empty list of
  primitive values, and an advanced filter built from a valid target, a logical operator
  that passes the constructor's guard and one or two well-formed conditions, serialise to
  a value that conforms to the filter schema, on which \<open>validateFilter\<close> returns
  \<^verbatim>\<open>undefined\<close>. The payload may be given as one array or as separate arguments;
  the operators are any strings; the failure records of the evaluator are arbitrary.
\<close>

theorem filter_roundtrip:
  "(isFilterTarget tgt \<and> isString opr \<and> vs \<noteq> [] \<and> list_all isPrimitive vs
      \<and> (args = [JArr vs] \<or> args = vs) \<longrightarrow>
        (\<exists>f. BasicFilter_new tgt opr args = Inr f
           \<and> conforms_filter (JObj (BasicFilter_toJSON f))
           \<and> fst (validateFilter (jsen_spec fails) (S\<lparr>filterSchema := conforms_filter\<rparr>)
                   (JObj (BasicFilter_toJSON f)) h) = None))
   \<and> (isFilterTarget tgt \<and> isString lop \<and> lop \<noteq> JStr []
      \<and> (length cs = 1 \<or> length cs = 2) \<and> list_all isCondition cs
      \<and> (args' = [JArr cs] \<or> args' = cs) \<longrightarrow>
        (\<exists>f. AdvancedFilter_new tgt lop args' = Inr f
           \<and> conforms_filter (JObj (AdvancedFilter_toJSON f))
           \<and> fst (validateFilter (jsen_spec fails) (S\<lparr>filterSchema := conforms_filter\<rparr>)
                   (JObj (AdvancedFilter_toJSON f)) h) = None))"
proof (intro conjI impI)
  assume a: "isFilterTarget tgt \<and> isString opr \<and> vs \<noteq> [] \<and> list_all isPrimitive vs
      \<and> (args = [JArr vs] \<or> args = vs)"
  let ?f = "\<lparr>schemaUrl = BasicFilter_schemaUrl, target = tgt, operator = opr, valuesF = vs\<rparr>"
  have n: "BasicFilter_new tgt opr args = Inr ?f"
    using a by (simp add: BasicFilter_new_payload)
  have c: "conforms_filter (JObj (BasicFilter_toJSON ?f))"
    using a by (simp add: BasicFilter_toJSON_conforms)
  then have "fst (validateFilter (jsen_spec fails) (S\<lparr>filterSchema := conforms_filter\<rparr>)
                   (JObj (BasicFilter_toJSON ?f)) h) = None"
    by (rule validateFilter_jsen_spec)
  with n c show "\<exists>f. BasicFilter_new tgt opr args = Inr f
           \<and> conforms_filter (JObj (BasicFilter_toJSON f))
           \<and> fst (validateFilter (jsen_spec fails) (S\<lparr>filterSchema := conforms_filter\<rparr>)
                   (JObj (BasicFilter_toJSON f)) h) = None"
    by blast
next
  assume a: "isFilterTarget tgt \<and> isString lop \<and> lop \<noteq> JStr []
      \<and> (length cs = 1 \<or> length cs = 2) \<and> list_all isCondition cs
      \<and> (args' = [JArr cs] \<or> args' = cs)"
  let ?f = "\<lparr>schemaUrl = AdvancedFilter_schemaUrl, target = tgt,
             logicalOperator = lop, conditions = cs\<rparr>"
  have n: "AdvancedFilter_new tgt lop args' = Inr ?f"
    using a by (simp add: AdvancedFilter_new_payload)
  have c: "conforms_filter (JObj (AdvancedFilter_toJSON ?f))"
    using a by (simp add: AdvancedFilter_toJSON_conforms)
  then have "fst (validateFilter (jsen_spec fails) (S\<lparr>filterSchema := conforms_filter\<rparr>)
                   (JObj (AdvancedFilter_toJSON ?f)) h) = None"
    by (rule validateFilter_jsen_spec)
  with n c show "\<exists>f. AdvancedFilter_new tgt lop args' = Inr f
           \<and> conforms_filter (JObj (AdvancedFilter_toJSON f))
           \<and> fst (validateFilter (jsen_spec fails) (S\<lparr>filterSchema := conforms_filter\<rparr>)
                   (JObj (AdvancedFilter_toJSON f)) h) = None"
    by blast
qed

text \<open>
  The basic filter of the repository's test, with the operator \<^verbatim>\<open>x\<close> and three
  values given one by one, and an advanced filter with two conditions given as an array,
  are accepted; a value with a target and nothing else is rejected.
\<close>

theorem filter_roundtrip_witness:
  "(\<exists>f. BasicFilter_new target_demo (JStr ''x'') [JStr ''a'', JNum 100, JBool False] = Inr f
        \<and> fst (validateFilter (jsen_spec fails_demo) schemas_demo
                 (JObj (BasicFilter_toJSON f)) heap_demo) = None)
   \<and> (\<exists>f. AdvancedFilter_new target_demo (JStr ''And'')
             [JArr [condition_demo ''a'', condition_demo ''b'']] = Inr f
        \<and> fst (validateFilter (jsen_spec fails_demo) schemas_demo
                 (JObj (AdvancedFilter_toJSON f)) heap_demo) = None)
   \<and> fst (validateFilter (jsen_spec fails_demo) schemas_demo
            (JObj [(''target'', target_demo)]) heap_demo) = Some [0]"
proof -
  have t: "isFilterTarget target_demo"
    by (simp add: target_demo_def get_prop_def isColumnTarget_def)
  have c: "list_all isCondition [condition_demo ''a'', condition_demo ''b'']"
    by (simp add: condition_demo_def get_prop_def AdvancedFilterConditionOperators_def)
  have s: "schemas_demo\<lparr>filterSchema := conforms_filter\<rparr> = schemas_demo"
    by (simp add: schemas_demo_def)
  have r: "fst (validateFilter (jsen_spec fails_demo) schemas_demo
            (JObj [(''target'', target_demo)]) heap_demo) = Some [0]"
    by (simp add: validateFilter_def validate_result jsen_spec_def fails_demo_def
          schemas_demo_def conforms_filter_def get_prop_def)
  show ?thesis
    using filter_roundtrip [of target_demo "JStr ''x''"
        "[JStr ''a'', JNum 100, JBool False]" "[JStr ''a'', JNum 100, JBool False]"
        fails_demo schemas_demo heap_demo "JStr ''And''"
        "[condition_demo ''a'', condition_demo ''b'']"
        "[JArr [condition_demo ''a'', condition_demo ''b'']]"]
      t c s r
    by auto
qed

text \<open>
  C6. For a non-empty payload of values, and for a payload of one or two conditions with
  a logical operator that passes the guard, the constructor called with the payload as
  one array and the constructor called with the payload elements as separate arguments
  both succeed, with the same serialisation. No element of such a payload is an array.
\<close>

theorem array_form_equals_variadic_form:
  "(vs \<noteq> [] \<and> list_all (\<lambda>v. \<not> isArray v) vs \<longrightarrow>
      (\<exists>j. map_sum id BasicFilter_toJSON (BasicFilter_new tgt opr [JArr vs]) = Inr j
          \<and> map_sum id BasicFilter_toJSON (BasicFilter_new tgt opr vs) = Inr j))
   \<and> (isString lop \<and> lop \<noteq> JStr [] \<and> (length cs = 1 \<or> length cs = 2)
        \<and> list_all (\<lambda>c. \<not> isArray c) cs \<longrightarrow>
      (\<exists>j. map_sum id AdvancedFilter_toJSON (AdvancedFilter_new tgt lop [JArr cs]) = Inr j
          \<and> map_sum id AdvancedFilter_toJSON (AdvancedFilter_new tgt lop cs) = Inr j))"
proof (intro conjI impI)
  assume a: "vs \<noteq> [] \<and> list_all (\<lambda>v. \<not> isArray v) vs"
  then have "resolve_payload vs = vs"
    by (simp add: resolve_payload_no_array hd_not_array)
  with a show "\<exists>j. map_sum id BasicFilter_toJSON (BasicFilter_new tgt opr [JArr vs]) = Inr j
          \<and> map_sum id BasicFilter_toJSON (BasicFilter_new tgt opr vs) = Inr j"
    by (simp add: BasicFilter_new_def)
next
  assume a: "isString lop \<and> lop \<noteq> JStr [] \<and> (length cs = 1 \<or> length cs = 2)
        \<and> list_all (\<lambda>c. \<not> isArray c) cs"
  then have ne: "cs \<noteq> []" by auto
  with a have "resolve_payload cs = cs"
    by (simp add: resolve_payload_no_array hd_not_array)
  with a ne show "\<exists>j. map_sum id AdvancedFilter_toJSON (AdvancedFilter_new tgt lop [JArr cs]) = Inr j
          \<and> map_sum id AdvancedFilter_toJSON (AdvancedFilter_new tgt lop cs) = Inr j"
    by (auto simp add: AdvancedFilter_new_def)
qed

text \<open>The two values \<open>1, 2\<close> and one condition, each given in both forms.\<close>

theorem array_form_equals_variadic_form_witness:
  "map_sum id BasicFilter_toJSON
       (BasicFilter_new target_demo (JStr ''In'') [JArr [JNum 1, JNum 2]])
     = map_sum id BasicFilter_toJSON
         (BasicFilter_new target_demo (JStr ''In'') [JNum 1, JNum 2])
   \<and> map_sum id AdvancedFilter_toJSON
       (AdvancedFilter_new target_demo (JStr ''And'') [JArr [condition_demo ''a'']])
     = map_sum id AdvancedFilter_toJSON
         (AdvancedFilter_new target_demo (JStr ''And'') [condition_demo ''a''])"
  using array_form_equals_variadic_form
          [of "[JNum 1, JNum 2]" target_demo "JStr ''In''" "JStr ''And''" "[condition_demo ''a'']"]
  by (auto simp add: condition_demo_def)

section \<open>Discrimination\<close>

text \<open>
  C7. \<open>getFilterType\<close> returns \<open>Basic\<close> exactly when \<^verbatim>\<open>operator\<close> is a string and
  \<^verbatim>\<open>values\<close> is an array; failing that, \<open>Advanced\<close> exactly when
  \<^verbatim>\<open>logicalOperator\<close> is a string and \<^verbatim>\<open>conditions\<close> is an array; failing that,
  \<open>Unknown\<close>. An object passing both tests is \<open>Basic\<close>, and setting or removing
  \<^verbatim>\<open>$schema\<close> changes nothing.
\<close>

theorem getFilterType_classification:
  "(getFilterType f = Basic \<longleftrightarrow>
      isString (get_prop f ''operator'') \<and> isArray (get_prop f ''values''))
   \<and> (getFilterType f = Advanced \<longleftrightarrow>
      \<not> (isString (get_prop f ''operator'') \<and> isArray (get_prop f ''values''))
      \<and> isString (get_prop f ''logicalOperator'') \<and> isArray (get_prop f ''conditions''))
   \<and> (getFilterType f = Unknown \<longleftrightarrow>
      \<not> (isString (get_prop f ''operator'') \<and> isArray (get_prop f ''values''))
      \<and> \<not> (isString (get_prop f ''logicalOperator'') \<and> isArray (get_prop f ''conditions'')))
   \<and> getFilterType (set_prop f ''$schema'' v) = getFilterType f
   \<and> getFilterType (AList.delete ''$schema'' f) = getFilterType f"
  by (simp add: getFilterType_def get_prop_update get_prop_delete)

text \<open>An object that passes both tests, and an advanced filter given a basic schema tag.\<close>

theorem getFilterType_classification_witness:
  "getFilterType [(''operator'', JStr ''In''), (''values'', JArr []),
                  (''logicalOperator'', JStr ''And''), (''conditions'', JArr [])] = Basic
   \<and> getFilterType (set_prop [(''logicalOperator'', JStr ''And''), (''conditions'', JArr [])]
                         ''$schema'' (JStr BasicFilter_schemaUrl)) = Advanced"
  using getFilterType_classification
          [of "[(''operator'', JStr ''In''), (''values'', JArr []),
                (''logicalOperator'', JStr ''And''), (''conditions'', JArr [])]"]
        getFilterType_classification
          [of "[(''logicalOperator'', JStr ''And''), (''conditions'', JArr [])]"
              "JStr BasicFilter_schemaUrl"]
  by (simp add: get_prop_def)

text \<open>
  C8. \<open>isMeasure\<close> holds exactly when \<^verbatim>\<open>table\<close> and \<^verbatim>\<open>measure\<close> are defined,
  \<open>isColumn\<close> exactly when \<^verbatim>\<open>table\<close> and \<^verbatim>\<open>column\<close> are, \<open>isHierarchy\<close> exactly
  when \<^verbatim>\<open>table\<close>, \<^verbatim>\<open>hierarchy\<close> and \<^verbatim>\<open>hierarchyLevel\<close> are. Each predicate ignores
  every other field, and one object can satisfy all three.
\<close>

theorem target_predicates:
  "(isMeasure a \<longleftrightarrow> get_prop a ''table'' \<noteq> JUndefined \<and> get_prop a ''measure'' \<noteq> JUndefined)
   \<and> (isColumn a \<longleftrightarrow> get_prop a ''table'' \<noteq> JUndefined \<and> get_prop a ''column'' \<noteq> JUndefined)
   \<and> (isHierarchy a \<longleftrightarrow>
        get_prop a ''table'' \<noteq> JUndefined \<and> get_prop a ''hierarchy'' \<noteq> JUndefined
        \<and> get_prop a ''hierarchyLevel'' \<noteq> JUndefined)
   \<and> (k \<notin> {''table'', ''measure''} \<longrightarrow> isMeasure (set_prop a k v) = isMeasure a)
   \<and> (k \<notin> {''table'', ''column''} \<longrightarrow> isColumn (set_prop a k v) = isColumn a)
   \<and> (k \<notin> {''table'', ''hierarchy'', ''hierarchyLevel''} \<longrightarrow>
        isHierarchy (set_prop a k v) = isHierarchy a)
   \<and> (\<exists>b. isMeasure b \<and> isColumn b \<and> isHierarchy b)"
proof -
  let ?b = "[(''table'', JStr ''t''), (''measure'', JStr ''m''), (''column'', JStr ''c''),
             (''hierarchy'', JStr ''h''), (''hierarchyLevel'', JStr ''l'')]"
  have "isMeasure ?b \<and> isColumn ?b \<and> isHierarchy ?b"
    by (simp add: isMeasure_def isColumn_def isHierarchy_def get_prop_def)
  then have "\<exists>b. isMeasure b \<and> isColumn b \<and> isHierarchy b" by blast
  then show ?thesis
    by (simp add: isMeasure_def isColumn_def isHierarchy_def get_prop_update)
qed

text \<open>A measure target is not a column target; given a column it is both.\<close>

theorem target_predicates_witness:
  "isMeasure [(''table'', JStr ''t''), (''measure'', JStr ''m'')]
   \<and> \<not> isColumn [(''table'', JStr ''t''), (''measure'', JStr ''m'')]
   \<and> isMeasure (set_prop [(''table'', JStr ''t''), (''measure'', JStr ''m'')]
                  ''column'' (JStr ''c''))
   \<and> isColumn (set_prop [(''table'', JStr ''t''), (''measure'', JStr ''m'')]
                 ''column'' (JStr ''c''))"
  using target_predicates
          [of "[(''table'', JStr ''t''), (''measure'', JStr ''m'')]" "''column''" "JStr ''c''"]
        target_predicates
          [of "set_prop [(''table'', JStr ''t''), (''measure'', JStr ''m'')]
                 ''column'' (JStr ''c'')"]
  by (simp add: get_prop_def set_prop_def)

section \<open>What the code does at the guards and in the normaliser\<close>

text \<open>
  C9. Both constructors test the trailing argument list before looking for an array in
  it: construction fails exactly on the length of that list, and a call whose payload is
  one array passes whatever the array holds, so a basic filter can hold no values and an
  advanced filter can hold no condition or more than two.
\<close>

theorem guards_precede_detection:
  "((\<exists>e. BasicFilter_new tgt opr vals = Inl e) \<longleftrightarrow> length vals = 0)
   \<and> BasicFilter_new tgt opr [JArr arr]
       = Inr \<lparr>schemaUrl = BasicFilter_schemaUrl, target = tgt, operator = opr, valuesF = arr\<rparr>
   \<and> (isString lop \<and> lop \<noteq> JStr [] \<longrightarrow>
        ((\<exists>e. AdvancedFilter_new tgt lop conds = Inl e) \<longleftrightarrow>
           length conds = 0 \<or> length conds > 2)
        \<and> AdvancedFilter_new tgt lop [JArr arr]
           = Inr \<lparr>schemaUrl = AdvancedFilter_schemaUrl, target = tgt,
                   logicalOperator = lop, conditions = arr\<rparr>)"
  by (simp add: BasicFilter_new_def AdvancedFilter_new_def)

text \<open>An empty array in both constructors, and an array of three in the second.\<close>

theorem guards_precede_detection_witness:
  "(\<exists>f. BasicFilter_new JNull (JStr ''In'') [JArr []] = Inr f \<and> valuesF f = [])
   \<and> (\<exists>f. AdvancedFilter_new JNull (JStr ''Or'') [JArr []] = Inr f \<and> conditions f = [])
   \<and> (\<exists>f. AdvancedFilter_new JNull (JStr ''Or'') [JArr [JNull, JNull, JNull]] = Inr f
           \<and> length (conditions f) = 3)"
  using guards_precede_detection [of JNull "JStr ''In''" "[]" "[]" "JStr ''Or''" "[]"]
    guards_precede_detection
      [of JNull "JStr ''In''" "[]" "[JNull, JNull, JNull]" "JStr ''Or''" "[]"]
  by simp

text \<open>
  C10. The normaliser treats an empty message as an absent one: any falsy message is
  replaced by the built text, any other is kept. It works in place: it returns the
  reference it was given, the record at that reference has lost its path and its rule
  kind, and no other record of the store has changed.
\<close>

theorem normalizeError_in_place:
  "fst (normalizeError r h) = r
   \<and> (\<forall>r'. r' \<noteq> r \<longrightarrow> snd (normalizeError r h) r' = h r')
   \<and> path (snd (normalizeError r h) r) = None
   \<and> keyword (snd (normalizeError r h) r) = None
   \<and> normalizeError r (h(r := (h r)\<lparr>message := Some []\<rparr>))
     = normalizeError r (h(r := (h r)\<lparr>message := None\<rparr>))
   \<and> (falsy (message (h r)) \<longrightarrow>
        message (snd (normalizeError r h) r) =
          Some (interpolate (path (h r)) @ '' is invalid. Not meeting ''
                @ interpolate (keyword (h r)) @ '' constraint''))
   \<and> (\<not> falsy (message (h r)) \<longrightarrow> message (snd (normalizeError r h) r) = message (h r))"
  by (simp add: normalizeError_def)

text \<open>An empty message is replaced, a real one kept, and record 2 is left alone.\<close>

theorem normalizeError_in_place_witness:
  "fst (normalizeError 1
        (heap_demo(1 := \<lparr>path = Some ''p'', keyword = Some ''k'', message = Some []\<rparr>))) = 1
   \<and> snd (normalizeError 1
        (heap_demo(1 := \<lparr>path = Some ''p'', keyword = Some ''k'', message = Some []\<rparr>))) 2
       = heap_demo 2
   \<and> message (snd (normalizeError 1
        (heap_demo(1 := \<lparr>path = Some ''p'', keyword = Some ''k'', message = Some []\<rparr>))) 1)
       = Some ''p is invalid. Not meeting k constraint''
   \<and> message (snd (normalizeError 1
        (heap_demo(1 := \<lparr>path = Some ''p'', keyword = Some ''k'', message = Some ''m''\<rparr>))) 1)
       = Some ''m''"
  using normalizeError_in_place
          [of 1 "heap_demo(1 := \<lparr>path = Some ''p'', keyword = Some ''k'', message = Some []\<rparr>)"]
        normalizeError_in_place
          [of 1 "heap_demo(1 := \<lparr>path = Some ''p'', keyword = Some ''k'', message = Some ''m''\<rparr>)"]
  by (auto simp add: normalizeError_def)

end
